theory Spec2Isabelle
  imports Main
begin

section \<open>The method model of the interface compiler (Method.cpp)\<close>

subsection \<open>Collaborators\<close>

text \<open>
  Modelled from the spec: the class \<open>Type\<close> is declared in Type.h, which is not among
  the sources. Method.cpp only asks a type for the answers below, so a type is the
  record of these answers: whether it is elidable, whether the managed backend can
  express it, and its three textual renderings (the first two depend on the
  \<open>specifyNamespaces\<close> flag).
\<close>

record Type =
  isElidableType :: bool
  typeIsJavaCompatible :: bool
  getCppArgumentType :: "bool \<Rightarrow> string"
  getCppResultType :: "bool \<Rightarrow> string"
  getJavaType :: string

text \<open>
  Modelled from the spec: \<open>NamedReference<Type>\<close> (Reference.h, not among the sources)
  is the named binding of a declared type to an argument or result slot.
\<close>

record NamedReference =
  name :: string
  type :: Type

text \<open>
  Modelled from the spec: an annotation (Annotation.h, not among the sources) is opaque
  to the method; it is identified here by its text.
\<close>

datatype Annotation = Annotation string

text \<open>
  Modelled from the spec: the text emission sink \<open>Formatter\<close> (hidl-util/Formatter.h,
  not among the sources). The sink is the text written so far; \<open>out << s\<close> adds \<open>s\<close>
  at its end, and \<open>join\<close> runs the given routine on every element, writing the
  separator before each element but the first.
\<close>

type_synonym Formatter = string

definition emit :: "Formatter \<Rightarrow> string \<Rightarrow> Formatter" where
  "emit out s = out @ s"

fun joinFrom :: "bool \<Rightarrow> 'a list \<Rightarrow> string \<Rightarrow> ('a \<Rightarrow> Formatter \<Rightarrow> Formatter)
    \<Rightarrow> Formatter \<Rightarrow> Formatter" where
  "joinFrom atBegin [] separator func out = out"
| "joinFrom atBegin (x # xs) separator func out =
     joinFrom False xs separator func
       (func x (if atBegin then out else emit out separator))"

definition join :: "'a list \<Rightarrow> string \<Rightarrow> ('a \<Rightarrow> Formatter \<Rightarrow> Formatter)
    \<Rightarrow> Formatter \<Rightarrow> Formatter" where
  "join xs separator func out = joinFrom True xs separator func out"

text \<open>
  \<open>status_t\<close> is the integer status code of the platform; \<open>OK\<close> is zero and every other
  value is an error.
\<close>

type_synonym status_t = int

definition OK :: status_t where
  "OK = 0"

text \<open>
  A failed \<open>CHECK\<close> ends the compiler process. It is the \<open>Inl\<close> branch of a result,
  carrying the text of the condition that failed.
\<close>

datatype fatal = CheckFailed string

subsection \<open>The method entity\<close>

text \<open>
  Modelled from the spec: the roles of a reserved method's bodies (the enumeration
  \<open>MethodImplType\<close> is declared in Method.h, not among the sources). The spec names the
  interface default, the proxy side, the stub and the stub default implementation.
  No result below depends on the catalogue being complete.
\<close>

datatype MethodImplType = IMPL_INTERFACE | IMPL_PROXY | IMPL_STUB | IMPL_STUB_IMPL

text \<open>
  \<open>MethodImpl\<close> is a \<open>std::map\<close> from role to emission routine. A role is absent
  (\<open>None\<close>), registered with the null routine (\<open>Some None\<close>), or registered with a
  routine that writes to the sink (\<open>Some (Some f)\<close>).
\<close>

type_synonym MethodImpl = "MethodImplType \<Rightarrow> (Formatter \<Rightarrow> Formatter) option option"

text \<open>
  Modelled from the spec: the fields of \<open>Method\<close> are declared in Method.h, not among
  the sources. A method is constructed not reserved, with serial 0 and empty
  implementation maps. The source location takes part in no operation modelled here
  and is left out.
\<close>

record Method =
  mName :: string
  mArgs :: "NamedReference list"
  mResults :: "NamedReference list"
  mOneway :: bool
  mAnnotations :: "Annotation list"
  mIsHidlReserved :: bool
  mSerial :: nat
  mCppImpl :: MethodImpl
  mJavaImpl :: MethodImpl

definition newMethod :: "string \<Rightarrow> NamedReference list \<Rightarrow> NamedReference list \<Rightarrow> bool
    \<Rightarrow> Annotation list \<Rightarrow> Method" where
  "newMethod nm args results oneway annotations =
     \<lparr> mName = nm, mArgs = args, mResults = results, mOneway = oneway,
       mAnnotations = annotations, mIsHidlReserved = False, mSerial = 0,
       mCppImpl = Map.empty, mJavaImpl = Map.empty \<rparr>"

definition fillImplementation :: "nat \<Rightarrow> MethodImpl \<Rightarrow> MethodImpl \<Rightarrow> Method
    \<Rightarrow> fatal + Method" where
  "fillImplementation serial cppImpl javaImpl m =
     (let m' = m\<lparr> mIsHidlReserved := True, mSerial := serial,
                  mCppImpl := cppImpl, mJavaImpl := javaImpl \<rparr>
      in if \<not> (mJavaImpl m' IMPL_STUB_IMPL = None) then
           Inl (CheckFailed ''mJavaImpl.find(IMPL_STUB_IMPL) == mJavaImpl.end()'')
         else if \<not> (mCppImpl m' IMPL_STUB_IMPL = None \<or> mCppImpl m' IMPL_STUB = None) then
           Inl (CheckFailed
             ''mCppImpl.find(IMPL_STUB_IMPL) == mCppImpl.end() || mCppImpl.find(IMPL_STUB) == mCppImpl.end()'')
         else Inr m')"

definition isHidlReserved :: "Method \<Rightarrow> bool" where
  "isHidlReserved m = mIsHidlReserved m"

subsection \<open>The two analysis passes\<close>

text \<open>
  The routines of the collaborators are parameters: for a typed reference the call
  \<open>(*arg)->callForReference(&Type::evaluate)\<close> (or \<open>&Type::validate\<close>), for an annotation
  its \<open>evaluate()\<close> (or \<open>validate()\<close>). Each takes the element and the state of the
  collaborators and returns a status and the new state.

  \<open>forEachStatus\<close> is the loop \<open>for (x : xs) { err = f(x); if (err != OK) return err; }\<close>.
  It yields the error that made the enclosing function return, or \<open>OK\<close> when the loop
  ran to its end.
\<close>

fun forEachStatus :: "('x \<Rightarrow> 's \<Rightarrow> status_t \<times> 's) \<Rightarrow> 'x list \<Rightarrow> 's \<Rightarrow> status_t \<times> 's" where
  "forEachStatus f [] s = (OK, s)"
| "forEachStatus f (x # xs) s =
     (case f x s of (err, s') \<Rightarrow>
        if err \<noteq> OK then (err, s') else forEachStatus f xs s')"

definition evaluate :: "(NamedReference \<Rightarrow> 's \<Rightarrow> status_t \<times> 's)
    \<Rightarrow> (Annotation \<Rightarrow> 's \<Rightarrow> status_t \<times> 's) \<Rightarrow> Method \<Rightarrow> 's \<Rightarrow> status_t \<times> 's" where
  "evaluate typeEvaluate annotationEvaluate m s =
     (case forEachStatus typeEvaluate (mArgs m) s of (err1, s1) \<Rightarrow>
        if err1 \<noteq> OK then (err1, s1) else
          (case forEachStatus typeEvaluate (mResults m) s1 of (err2, s2) \<Rightarrow>
             if err2 \<noteq> OK then (err2, s2) else
               (case forEachStatus annotationEvaluate (mAnnotations m) s2 of (err3, s3) \<Rightarrow>
                  if err3 \<noteq> OK then (err3, s3) else (OK, s3))))"

definition validate :: "(NamedReference \<Rightarrow> 's \<Rightarrow> status_t \<times> 's)
    \<Rightarrow> (Annotation \<Rightarrow> 's \<Rightarrow> status_t \<times> 's) \<Rightarrow> Method \<Rightarrow> 's \<Rightarrow> status_t \<times> 's" where
  "validate typeValidate annotationValidate m s =
     (case forEachStatus typeValidate (mArgs m) s of (err1, s1) \<Rightarrow>
        if err1 \<noteq> OK then (err1, s1) else
          (case forEachStatus typeValidate (mResults m) s1 of (err2, s2) \<Rightarrow>
             if err2 \<noteq> OK then (err2, s2) else
               (case forEachStatus annotationValidate (mAnnotations m) s2 of (err3, s3) \<Rightarrow>
                  if err3 \<noteq> OK then (err3, s3) else (OK, s3))))"

subsection \<open>Reserved-method dispatch\<close>

definition cppImpl :: "MethodImplType \<Rightarrow> Formatter \<Rightarrow> Method \<Rightarrow> fatal + Formatter" where
  "cppImpl ty out m =
     (if \<not> mIsHidlReserved m then Inl (CheckFailed ''mIsHidlReserved'')
      else case mCppImpl m ty of
             None \<Rightarrow> Inr out
           | Some None \<Rightarrow> Inr out
           | Some (Some f) \<Rightarrow> Inr (f out))"

definition javaImpl :: "MethodImplType \<Rightarrow> Formatter \<Rightarrow> Method \<Rightarrow> fatal + Formatter" where
  "javaImpl ty out m =
     (if \<not> mIsHidlReserved m then Inl (CheckFailed ''mIsHidlReserved'')
      else case mJavaImpl m ty of
             None \<Rightarrow> Inr out
           | Some None \<Rightarrow> Inr out
           | Some (Some f) \<Rightarrow> Inr (f out))"

definition isHiddenFromJava :: "Method \<Rightarrow> bool" where
  "isHiddenFromJava m = (isHidlReserved m \<and> mName m = ''debug'')"

definition overridesCppImpl :: "MethodImplType \<Rightarrow> Method \<Rightarrow> fatal + bool" where
  "overridesCppImpl ty m =
     (if \<not> mIsHidlReserved m then Inl (CheckFailed ''mIsHidlReserved'')
      else Inr (mCppImpl m ty \<noteq> None))"

definition overridesJavaImpl :: "MethodImplType \<Rightarrow> Method \<Rightarrow> fatal + bool" where
  "overridesJavaImpl ty m =
     (if \<not> mIsHidlReserved m then Inl (CheckFailed ''mIsHidlReserved'')
      else Inr (mJavaImpl m ty \<noteq> None))"

definition setSerialId :: "nat \<Rightarrow> Method \<Rightarrow> fatal + Method" where
  "setSerialId serial m =
     (if \<not> (\<not> mIsHidlReserved m) then Inl (CheckFailed ''!mIsHidlReserved'')
      else Inr (m\<lparr> mSerial := serial \<rparr>))"

definition getSerialId :: "Method \<Rightarrow> nat" where
  "getSerialId m = mSerial m"

subsection \<open>Callback elision and signatures\<close>

definition canElideCallback :: "Method \<Rightarrow> NamedReference option" where
  "canElideCallback m =
     (if length (mResults m) \<noteq> 1 then None
      else (let typedVar = mResults m ! 0
            in if isElidableType (type typedVar) then Some typedVar else None))"

definition hasEmptyCppArgSignature :: "Method \<Rightarrow> bool" where
  "hasEmptyCppArgSignature m =
     (mArgs m = [] \<and> (mResults m = [] \<or> canElideCallback m \<noteq> None))"

definition generateCppReturnType :: "bool \<Rightarrow> Method \<Rightarrow> Formatter \<Rightarrow> Formatter" where
  "generateCppReturnType specifyNamespaces m out =
     (let elidedReturn = canElideCallback m;
          space = (if specifyNamespaces then ''::android::hardware::'' else '''')
      in case elidedReturn of
           None \<Rightarrow> emit (emit out space) ''Return<void> ''
         | Some r \<Rightarrow>
             emit (emit (emit (emit out space) ''Return<'')
                     (getCppResultType (type r) specifyNamespaces)) ''> '')"

definition emitCppArgResultSignature :: "NamedReference list \<Rightarrow> bool \<Rightarrow> Formatter
    \<Rightarrow> Formatter" where
  "emitCppArgResultSignature args specifyNamespaces out =
     join args '', ''
       (\<lambda>arg o1. emit (emit (emit o1 (getCppArgumentType (type arg) specifyNamespaces)) '' '')
                   (name arg))
       out"

definition emitJavaArgResultSignature :: "NamedReference list \<Rightarrow> Formatter \<Rightarrow> Formatter" where
  "emitJavaArgResultSignature args out =
     join args '', ''
       (\<lambda>arg o1. emit (emit (emit o1 (getJavaType (type arg))) '' '') (name arg))
       out"

definition emitCppArgSignature :: "bool \<Rightarrow> Method \<Rightarrow> Formatter \<Rightarrow> Formatter" where
  "emitCppArgSignature specifyNamespaces m out =
     (let out1 = emitCppArgResultSignature (mArgs m) specifyNamespaces out;
          returnsValue = (mResults m \<noteq> []);
          elidedReturn = canElideCallback m
      in if returnsValue \<and> elidedReturn = None then
           (let out2 = (if mArgs m \<noteq> [] then emit out1 '', '' else out1)
            in emit (emit out2 (mName m)) ''_cb _hidl_cb'')
         else out1)"

definition generateCppSignature :: "string \<Rightarrow> bool \<Rightarrow> Method \<Rightarrow> Formatter \<Rightarrow> Formatter" where
  "generateCppSignature className specifyNamespaces m out =
     (let out1 = generateCppReturnType specifyNamespaces m out;
          out2 = (if className \<noteq> [] then emit (emit out1 className) ''::'' else out1);
          out3 = emit (emit out2 (mName m)) ''('';
          out4 = emitCppArgSignature specifyNamespaces m out3
      in emit out4 '')'')"

definition emitCppResultSignature :: "bool \<Rightarrow> Method \<Rightarrow> Formatter \<Rightarrow> Formatter" where
  "emitCppResultSignature specifyNamespaces m out =
     emitCppArgResultSignature (mResults m) specifyNamespaces out"

definition emitJavaArgSignature :: "Method \<Rightarrow> Formatter \<Rightarrow> Formatter" where
  "emitJavaArgSignature m out = emitJavaArgResultSignature (mArgs m) out"

definition emitJavaResultSignature :: "Method \<Rightarrow> Formatter \<Rightarrow> Formatter" where
  "emitJavaResultSignature m out = emitJavaArgResultSignature (mResults m) out"

definition isJavaCompatible :: "Method \<Rightarrow> bool" where
  "isJavaCompatible m =
     (if isHiddenFromJava m then True
      else if \<not> list_all (\<lambda>arg. typeIsJavaCompatible (type arg)) (mArgs m) then False
      else if \<not> list_all (\<lambda>arg. typeIsJavaCompatible (type arg)) (mResults m) then False
      else True)"

subsection \<open>The collection with unique names\<close>

text \<open>
  \<open>TypedVarVector\<close> is a vector of typed references together with the set \<open>mNames\<close> of
  the names added so far. \<open>mNames.emplace(n).second\<close> is true exactly when \<open>n\<close> was not
  in the set, and then \<open>n\<close> is in it afterwards.
\<close>

record TypedVarVector =
  elems :: "NamedReference list"
  mNames :: "string set"

definition emptyTypedVarVector :: TypedVarVector where
  "emptyTypedVarVector = \<lparr> elems = [], mNames = {} \<rparr>"

definition add :: "NamedReference \<Rightarrow> TypedVarVector \<Rightarrow> bool \<times> TypedVarVector" where
  "add v vec =
     (if name v \<notin> mNames vec then
        (True, vec\<lparr> elems := elems vec @ [v], mNames := insert (name v) (mNames vec) \<rparr>)
      else (False, vec))"

text \<open>
  \<open>addAll vs vec\<close> is the collection after \<open>add\<close> has been called on \<open>vec\<close> for each
  element of \<open>vs\<close> in turn, whatever each call returned. \<open>wellFormed\<close> is the invariant
  of the representation: the name set holds exactly the names of the elements, and
  no two elements share a name.
\<close>

fun addAll :: "NamedReference list \<Rightarrow> TypedVarVector \<Rightarrow> TypedVarVector" where
  "addAll [] vec = vec"
| "addAll (v # vs) vec = addAll vs (snd (add v vec))"

definition wellFormed :: "TypedVarVector \<Rightarrow> bool" where
  "wellFormed vec = (mNames vec = name ` set (elems vec) \<and> distinct (map name (elems vec)))"

subsection \<open>Observing the calls of the analysis passes\<close>

text \<open>
  To state which collaborator routines a pass invokes, the routines are wrapped so
  that each invocation appends the element and the status it returned to a log kept
  beside the collaborators' own state. \<open>elements\<close> is the order the passes are
  claimed to follow: arguments, then results, then annotations.
\<close>

datatype call = TypeCall NamedReference | AnnotationCall Annotation

definition logged :: "('x \<Rightarrow> call) \<Rightarrow> ('x \<Rightarrow> 's \<Rightarrow> status_t \<times> 's)
    \<Rightarrow> 'x \<Rightarrow> (call \<times> status_t) list \<times> 's \<Rightarrow> status_t \<times> (call \<times> status_t) list \<times> 's" where
  "logged tag f x ls =
     (case ls of (log, s) \<Rightarrow>
        (case f x s of (err, s') \<Rightarrow> (err, (log @ [(tag x, err)], s'))))"

definition elements :: "Method \<Rightarrow> call list" where
  "elements m =
     map TypeCall (mArgs m) @ map TypeCall (mResults m) @ map AnnotationCall (mAnnotations m)"

text \<open>
  \<open>failFast cs err log\<close>: the log of a pass over the elements \<open>cs\<close> that returned \<open>err\<close>.
  The calls are an initial segment of \<open>cs\<close>, in order; every call but the last
  returned \<open>OK\<close>; when the pass returned \<open>OK\<close> every element was called and each call
  returned \<open>OK\<close>; when it returned an error, that error is the status of the last call.
\<close>

definition failFast :: "call list \<Rightarrow> status_t \<Rightarrow> (call \<times> status_t) list \<Rightarrow> bool" where
  "failFast cs err log =
     (map fst log = take (length log) cs
      \<and> list_all (\<lambda>p. snd p = OK) (butlast log)
      \<and> (if err = OK then length log = length cs \<and> list_all (\<lambda>p. snd p = OK) log
         else log \<noteq> [] \<and> snd (last log) = err))"

definition dispatch :: "(NamedReference \<Rightarrow> 's \<Rightarrow> status_t \<times> 's)
    \<Rightarrow> (Annotation \<Rightarrow> 's \<Rightarrow> status_t \<times> 's) \<Rightarrow> call \<Rightarrow> 's \<Rightarrow> status_t \<times> 's" where
  "dispatch typeRoutine annotationRoutine c =
     (case c of TypeCall r \<Rightarrow> typeRoutine r | AnnotationCall a \<Rightarrow> annotationRoutine a)"

subsection \<open>Example methods\<close>

definition int32 :: Type where
  "int32 = \<lparr> isElidableType = True, typeIsJavaCompatible = True,
             getCppArgumentType = (\<lambda>_. ''int32_t''), getCppResultType = (\<lambda>_. ''int32_t''),
             getJavaType = ''int'' \<rparr>"

definition hidlString :: Type where
  "hidlString = \<lparr> isElidableType = False, typeIsJavaCompatible = True,
       getCppArgumentType =
         (\<lambda>ns. ''const '' @ (if ns then ''::android::hardware::'' else []) @ ''hidl_string&''),
       getCppResultType =
         (\<lambda>ns. (if ns then ''::android::hardware::'' else []) @ ''hidl_string''),
       getJavaType = ''String'' \<rparr>"

definition unionType :: Type where
  "unionType = \<lparr> isElidableType = False, typeIsJavaCompatible = False,
       getCppArgumentType = (\<lambda>_. ''const U&''), getCppResultType = (\<lambda>_. ''U''),
       getJavaType = ''U'' \<rparr>"

definition ref :: "string \<Rightarrow> Type \<Rightarrow> NamedReference" where
  "ref n t = \<lparr> name = n, type = t \<rparr>"

definition foo :: Method where
  "foo = newMethod ''foo'' [] [ref ''x'' int32] False []"

definition bar :: Method where
  "bar = newMethod ''bar'' [ref ''a'' int32, ref ''b'' int32]
           [ref ''x'' int32, ref ''y'' int32] False []"

definition baz :: Method where
  "baz = newMethod ''baz'' [] [ref ''s'' hidlString] False []"

definition five :: Method where
  "five = newMethod ''five''
            [ref ''a'' int32, ref ''b'' int32, ref ''c'' int32, ref ''d'' int32, ref ''e'' int32]
            [ref ''x'' int32] False [Annotation ''callflow'']"

definition failsAtC :: "NamedReference \<Rightarrow> unit \<Rightarrow> status_t \<times> unit" where
  "failsAtC r s = (if name r = ''c'' then (- 22, s) else (OK, s))"

definition annotationOk :: "Annotation \<Rightarrow> unit \<Rightarrow> status_t \<times> unit" where
  "annotationOk a s = (OK, s)"

definition debugMethod :: Method where
  "debugMethod = (newMethod ''debug'' [ref ''u'' unionType] [] False [])
                   \<lparr> mIsHidlReserved := True, mSerial := 256,
                     mCppImpl := [IMPL_INTERFACE \<mapsto> None] \<rparr>"

definition pingMethod :: Method where
  "pingMethod = newMethod ''ping'' [ref ''u'' unionType] [] False []"

section \<open>Properties\<close>

subsection \<open>Callback elision\<close>

text \<open>
  C1. \<open>canElideCallback\<close> returns the single result exactly when the method has exactly
  one result and the type of that result is elidable. It returns none exactly when
  the method has no result, more than one result, or a single result whose type is
  not elidable.
\<close>

theorem canElideCallback_iff:
  "((canElideCallback m = Some r) = (mResults m = [r] \<and> isElidableType (type r)))
   \<and> ((canElideCallback m = None) =
        (mResults m = [] \<or> 1 < length (mResults m)
         \<or> (\<exists>r. mResults m = [r] \<and> \<not> isElidableType (type r))))"
  by (cases "mResults m"; cases "tl (mResults m)")
     (auto simp: canElideCallback_def Let_def)

theorem canElideCallback_iff_witness:
  "canElideCallback foo = Some (ref ''x'' int32) \<and> canElideCallback bar = None
   \<and> canElideCallback baz = None"
proof -
  have "canElideCallback foo = Some (ref ''x'' int32)"
    using canElideCallback_iff [of foo "ref ''x'' int32"]
    by (simp add: foo_def newMethod_def ref_def int32_def)
  moreover have "canElideCallback bar = None"
    using canElideCallback_iff [of bar] by (simp add: bar_def newMethod_def)
  moreover have "canElideCallback baz = None"
    using canElideCallback_iff [of baz]
    by (simp add: baz_def newMethod_def ref_def hidlString_def)
  ultimately show ?thesis by simp
qed

subsection \<open>The analysis passes stop at the first error\<close>

lemma forEachStatus_append:
  "forEachStatus f (xs @ ys) s =
     (case forEachStatus f xs s of (err, s') \<Rightarrow>
        if err \<noteq> OK then (err, s') else forEachStatus f ys s')"
  by (induction xs arbitrary: s) (auto split: prod.splits)

lemma forEachStatus_map:
  "forEachStatus f (map g xs) s = forEachStatus (\<lambda>x. f (g x)) xs s"
  by (induction xs arbitrary: s) (auto split: prod.splits)

lemma dispatch_TypeCall: "(\<lambda>x. dispatch tE aE (TypeCall x)) = tE"
  by (rule ext) (simp add: dispatch_def)

lemma dispatch_AnnotationCall: "(\<lambda>x. dispatch tE aE (AnnotationCall x)) = aE"
  by (rule ext) (simp add: dispatch_def)

lemma logged_apply:
  "logged tag f x (log, s) = (case f x s of (err, s') \<Rightarrow> (err, (log @ [(tag x, err)], s')))"
  by (simp add: logged_def)

lemma evaluate_forEach:
  "evaluate tE aE m s = forEachStatus (dispatch tE aE) (elements m) s"
  by (auto simp: evaluate_def elements_def forEachStatus_append forEachStatus_map
        dispatch_TypeCall dispatch_AnnotationCall split: prod.splits)

lemma validate_forEach:
  "validate tV aV m s = forEachStatus (dispatch tV aV) (elements m) s"
  by (auto simp: validate_def elements_def forEachStatus_append forEachStatus_map
        dispatch_TypeCall dispatch_AnnotationCall split: prod.splits)

lemma dispatch_logged:
  "dispatch (logged TypeCall tE) (logged AnnotationCall aE) = logged (\<lambda>c. c) (dispatch tE aE)"
  by (rule ext, rule ext) (auto simp: dispatch_def logged_def split: call.splits prod.splits)

lemma failFast_Cons_OK:
  "failFast cs err ext \<Longrightarrow> failFast (c # cs) err ((c, OK) # ext)"
  by (cases ext) (auto simp: failFast_def split: if_splits)

lemma failFast_single:
  "e \<noteq> OK \<Longrightarrow> failFast (c # cs) e [(c, e)]"
  by (simp add: failFast_def)

lemma forEachStatus_logged:
  "forEachStatus (logged (\<lambda>c. c) f) cs (log, s) = (err, (log', s')) \<Longrightarrow>
     (\<exists>ext. log' = log @ ext \<and> failFast cs err ext) \<and> forEachStatus f cs s = (err, s')"
proof (induction cs arbitrary: log s)
  case Nil
  then show ?case by (simp add: failFast_def)
next
  case (Cons c cs)
  obtain e s1 where fc: "f c s = (e, s1)" by (cases "f c s")
  show ?case
  proof (cases "e = OK")
    case True
    with Cons.prems fc
    have run: "forEachStatus (logged (\<lambda>c. c) f) cs (log @ [(c, OK)], s1) = (err, (log', s'))"
      by (simp add: logged_apply)
    from Cons.IH [OF run] obtain ext where
      ext: "log' = (log @ [(c, OK)]) @ ext" "failFast cs err ext"
      and plain: "forEachStatus f cs s1 = (err, s')" by blast
    have "log' = log @ ((c, OK) # ext)" using ext(1) by simp
    moreover have "failFast (c # cs) err ((c, OK) # ext)"
      using ext(2) by (rule failFast_Cons_OK)
    moreover have "forEachStatus f (c # cs) s = (err, s')"
      using fc True plain by simp
    ultimately show ?thesis by blast
  next
    case False
    with Cons.prems fc have "err = e" "log' = log @ [(c, e)]" "s' = s1"
      by (auto simp: logged_apply)
    with False fc show ?thesis
      using failFast_single [of e c cs] by auto
  qed
qed

lemma five_evaluate:
  "evaluate (logged TypeCall failsAtC) (logged AnnotationCall annotationOk) five ([], ())
     = (- 22, ([(TypeCall (ref ''a'' int32), OK), (TypeCall (ref ''b'' int32), OK),
                (TypeCall (ref ''c'' int32), - 22)], ()))"
  by (simp add: evaluate_def five_def newMethod_def logged_apply failsAtC_def ref_def OK_def)

lemma five_validate:
  "validate (logged TypeCall failsAtC) (logged AnnotationCall annotationOk) five ([], ())
     = (- 22, ([(TypeCall (ref ''a'' int32), OK), (TypeCall (ref ''b'' int32), OK),
                (TypeCall (ref ''c'' int32), - 22)], ()))"
  by (simp add: validate_def five_def newMethod_def logged_apply failsAtC_def ref_def OK_def)

text \<open>
  C3. Both \<open>evaluate\<close> and \<open>validate\<close> walk the arguments, then the results, then the
  annotations. Run with logging collaborators from an empty log, the log of either
  pass is an initial segment of that sequence in which every call but the last
  returned \<open>OK\<close>; a pass that returns an error returns the status of the last call it
  made, so no routine is invoked after a failure; a pass that returns \<open>OK\<close> has called
  every element and every call returned \<open>OK\<close>. Logging changes neither the status nor
  the collaborators' state.
\<close>

theorem evaluate_validate_fail_fast:
  "(evaluate (logged TypeCall typeEvaluate) (logged AnnotationCall annotationEvaluate) m ([], s)
      = (err, (log, s'))
    \<longrightarrow> failFast (elements m) err log
        \<and> evaluate typeEvaluate annotationEvaluate m s = (err, s'))
   \<and> (validate (logged TypeCall typeValidate) (logged AnnotationCall annotationValidate) m ([], s)
      = (err, (log, s'))
    \<longrightarrow> failFast (elements m) err log
        \<and> validate typeValidate annotationValidate m s = (err, s'))"
  using forEachStatus_logged [of "dispatch typeEvaluate annotationEvaluate" "elements m" "[]" s err log s']
        forEachStatus_logged [of "dispatch typeValidate annotationValidate" "elements m" "[]" s err log s']
  by (simp add: evaluate_forEach validate_forEach dispatch_logged)

theorem evaluate_validate_fail_fast_witness:
  "evaluate (logged TypeCall failsAtC) (logged AnnotationCall annotationOk) five ([], ())
     = (- 22, ([(TypeCall (ref ''a'' int32), OK), (TypeCall (ref ''b'' int32), OK),
                (TypeCall (ref ''c'' int32), - 22)], ()))
   \<and> failFast (elements five) (- 22)
       [(TypeCall (ref ''a'' int32), OK), (TypeCall (ref ''b'' int32), OK),
        (TypeCall (ref ''c'' int32), - 22)]
   \<and> evaluate failsAtC annotationOk five () = (- 22, ())
   \<and> validate failsAtC annotationOk five () = (- 22, ())"
  using evaluate_validate_fail_fast [of failsAtC annotationOk five "()" "- 22"
          "[(TypeCall (ref ''a'' int32), OK), (TypeCall (ref ''b'' int32), OK),
            (TypeCall (ref ''c'' int32), - 22)]" "()" failsAtC annotationOk]
        five_evaluate five_validate
  by simp

subsection \<open>The native argument signature\<close>

lemma joinFrom_prefix:
  assumes func: "\<And>x o1. func x o1 = o1 @ func x []"
  shows "joinFrom atBegin xs separator func out = out @ joinFrom atBegin xs separator func []"
proof (induction xs arbitrary: atBegin out)
  case Nil
  then show ?case by simp
next
  case (Cons x xs)
  define rest where "rest = joinFrom False xs separator func []"
  define lead where "lead = (if atBegin then [] else separator)"
  have step: "joinFrom False xs separator func o1 = o1 @ rest" for o1
    unfolding rest_def by (rule Cons.IH)
  have "joinFrom atBegin (x # xs) separator func out = func x (out @ lead) @ rest"
    by (simp add: emit_def lead_def step)
  also have "\<dots> = out @ lead @ func x [] @ rest"
    by (subst func) simp
  also have "\<dots> = out @ func x lead @ rest"
    by (subst (2) func) simp
  also have "\<dots> = out @ joinFrom atBegin (x # xs) separator func []"
    by (simp add: emit_def lead_def step)
  finally show ?case .
qed

lemma emitCppArgResultSignature_prefix:
  "emitCppArgResultSignature args specifyNamespaces out =
     out @ emitCppArgResultSignature args specifyNamespaces []"
  unfolding emitCppArgResultSignature_def join_def
  by (rule joinFrom_prefix) (simp add: emit_def)

text \<open>
  C2. When the results are non-empty and not elided, the native argument signature is
  the explicit arguments followed by the callback parameter \<open><name>_cb _hidl_cb\<close> at
  the very end, with the separator \<open>, \<close> before it only when there are explicit
  arguments. When the results are empty or the callback is elided, the signature is
  the explicit arguments alone.
\<close>

theorem emitCppArgSignature_callback:
  "(mResults m \<noteq> [] \<and> canElideCallback m = None \<longrightarrow>
      emitCppArgSignature specifyNamespaces m out =
        out @ emitCppArgResultSignature (mArgs m) specifyNamespaces []
            @ (if mArgs m = [] then [] else '', '') @ mName m @ ''_cb _hidl_cb'')
   \<and> (mResults m = [] \<or> canElideCallback m \<noteq> None \<longrightarrow>
      emitCppArgSignature specifyNamespaces m out =
        out @ emitCppArgResultSignature (mArgs m) specifyNamespaces [])"
  using emitCppArgResultSignature_prefix [of "mArgs m" specifyNamespaces out]
  by (auto simp: emitCppArgSignature_def Let_def emit_def)

lemma canElideCallback_foo: "canElideCallback foo = Some (ref ''x'' int32)"
  by (simp add: canElideCallback_def foo_def newMethod_def ref_def int32_def)

lemma canElideCallback_bar: "canElideCallback bar = None"
  by (simp add: canElideCallback_def bar_def newMethod_def)

lemma canElideCallback_baz: "canElideCallback baz = None"
  by (simp add: canElideCallback_def baz_def newMethod_def ref_def hidlString_def)

lemma args_bar: "emitCppArgResultSignature (mArgs bar) False [] = ''int32_t a, int32_t b''"
  by (simp add: emitCppArgResultSignature_def join_def emit_def bar_def newMethod_def
        ref_def int32_def)

theorem emitCppArgSignature_callback_witness:
  "emitCppArgSignature False bar ''('' = ''(int32_t a, int32_t b, bar_cb _hidl_cb''
   \<and> emitCppArgSignature False baz ''('' = ''(baz_cb _hidl_cb''
   \<and> emitCppArgSignature False foo ''('' = ''(''"
proof -
  have "emitCppArgSignature False bar ''('' = ''(int32_t a, int32_t b, bar_cb _hidl_cb''"
    using emitCppArgSignature_callback [of bar False "''(''"] canElideCallback_bar args_bar
    by (simp add: bar_def newMethod_def)
  moreover have "emitCppArgSignature False baz ''('' = ''(baz_cb _hidl_cb''"
    using emitCppArgSignature_callback [of baz False "''(''"] canElideCallback_baz
    by (simp add: baz_def newMethod_def emitCppArgResultSignature_def join_def)
  moreover have "emitCppArgSignature False foo ''('' = ''(''"
    using emitCppArgSignature_callback [of foo False "''(''"] canElideCallback_foo
    by (simp add: foo_def newMethod_def emitCppArgResultSignature_def join_def)
  ultimately show ?thesis by simp
qed

lemma generateCppSignature_foo:
  "generateCppSignature [] False foo [] = ''Return<int32_t> foo()''"
  by (simp add: generateCppSignature_def generateCppReturnType_def emitCppArgSignature_def
        canElideCallback_foo Let_def emit_def emitCppArgResultSignature_def join_def)
     (simp add: foo_def newMethod_def ref_def int32_def emit_def)

lemma generateCppSignature_bar:
  "generateCppSignature [] False bar [] = ''Return<void> bar(int32_t a, int32_t b, bar_cb _hidl_cb)''"
  by (simp add: generateCppSignature_def generateCppReturnType_def emitCppArgSignature_def
        canElideCallback_bar Let_def emit_def emitCppArgResultSignature_def join_def)
     (simp add: bar_def newMethod_def ref_def int32_def emit_def)

subsection \<open>The empty native argument signature\<close>

lemma canElideCallback_Some:
  "(canElideCallback m = Some r) = (mResults m = [r] \<and> isElidableType (type r))"
  by (cases "mResults m"; cases "tl (mResults m)")
     (auto simp: canElideCallback_def Let_def)

text \<open>
  C7. \<open>hasEmptyCppArgSignature\<close> is true exactly when the argument list is empty and
  the result list is empty or the callback is elided, that is, there is exactly one
  result and its type is elidable.
\<close>

theorem hasEmptyCppArgSignature_iff:
  "hasEmptyCppArgSignature m =
     (mArgs m = [] \<and> (mResults m = [] \<or> (\<exists>r. canElideCallback m = Some r)))
   \<and> hasEmptyCppArgSignature m =
     (mArgs m = [] \<and> (mResults m = [] \<or> (\<exists>r. mResults m = [r] \<and> isElidableType (type r))))"
  by (auto simp: hasEmptyCppArgSignature_def canElideCallback_Some [symmetric])

theorem hasEmptyCppArgSignature_iff_witness:
  "hasEmptyCppArgSignature foo \<and> \<not> hasEmptyCppArgSignature bar \<and> \<not> hasEmptyCppArgSignature baz"
  using hasEmptyCppArgSignature_iff [of foo, THEN conjunct2]
        hasEmptyCppArgSignature_iff [of bar, THEN conjunct2]
        hasEmptyCppArgSignature_iff [of baz, THEN conjunct2]
  by (simp add: foo_def bar_def baz_def newMethod_def ref_def int32_def hidlString_def)


subsection \<open>Serial id and reservation\<close>

text \<open>
  The setter keeps no record of an earlier call: on the method \<open>foo\<close>, which is not
  reserved, it accepts serial 1 and then serial 2, and the serial read back is 2.
  So C4 as stated, with a second setting rejected on any method, does not hold.
\<close>

theorem setSerialId_twice_counterexample:
  "setSerialId 1 foo = Inr (foo\<lparr> mSerial := 1 \<rparr>)
   \<and> setSerialId 2 (foo\<lparr> mSerial := 1 \<rparr>) = Inr (foo\<lparr> mSerial := 2 \<rparr>)
   \<and> getSerialId (foo\<lparr> mSerial := 2 \<rparr>) = 2"
  by (simp add: setSerialId_def getSerialId_def foo_def newMethod_def)

text \<open>
  C4, amended. Setting the serial id of a reserved method is a fatal assertion
  failure. On a method that is not reserved the setter succeeds and stores the given
  serial, whether or not one was set before. A successful reservation marks the
  method reserved and stores the serial it is given, and from then on the setter is
  rejected for every serial: a reserved method has its serial from a reservation.
\<close>

theorem setSerialId_guard:
  "(mIsHidlReserved m \<longrightarrow> setSerialId serial m = Inl (CheckFailed ''!mIsHidlReserved''))
   \<and> (\<not> mIsHidlReserved m \<longrightarrow> setSerialId serial m = Inr (m\<lparr> mSerial := serial \<rparr>))
   \<and> (fillImplementation serial cppI javaI m = Inr m' \<longrightarrow>
        mIsHidlReserved m' \<and> getSerialId m' = serial
        \<and> setSerialId serial' m' = Inl (CheckFailed ''!mIsHidlReserved''))"
  by (auto simp: setSerialId_def fillImplementation_def getSerialId_def Let_def
           split: if_splits)

lemma fill_foo:
  "fillImplementation 256 [IMPL_INTERFACE \<mapsto> None] Map.empty foo =
     Inr (foo\<lparr> mIsHidlReserved := True, mSerial := 256,
               mCppImpl := [IMPL_INTERFACE \<mapsto> None], mJavaImpl := Map.empty \<rparr>)"
  by (simp add: fillImplementation_def Let_def)

theorem setSerialId_guard_witness:
  "setSerialId 7 debugMethod = Inl (CheckFailed ''!mIsHidlReserved'')
   \<and> setSerialId 7 foo = Inr (foo\<lparr> mSerial := 7 \<rparr>)
   \<and> fillImplementation 256 [IMPL_INTERFACE \<mapsto> None] Map.empty foo =
       Inr (foo\<lparr> mIsHidlReserved := True, mSerial := 256,
                 mCppImpl := [IMPL_INTERFACE \<mapsto> None], mJavaImpl := Map.empty \<rparr>)
   \<and> setSerialId 7 (foo\<lparr> mIsHidlReserved := True, mSerial := 256,
                 mCppImpl := [IMPL_INTERFACE \<mapsto> None], mJavaImpl := Map.empty \<rparr>)
       = Inl (CheckFailed ''!mIsHidlReserved'')"
proof -
  have "mIsHidlReserved debugMethod" by (simp add: debugMethod_def)
  then have "setSerialId 7 debugMethod = Inl (CheckFailed ''!mIsHidlReserved'')"
    using setSerialId_guard [of debugMethod 7] by simp
  moreover have "\<not> mIsHidlReserved foo" by (simp add: foo_def newMethod_def)
  then have "setSerialId 7 foo = Inr (foo\<lparr> mSerial := 7 \<rparr>)"
    using setSerialId_guard [of foo 7] by simp
  moreover have "setSerialId 7 (foo\<lparr> mIsHidlReserved := True, mSerial := 256,
                 mCppImpl := [IMPL_INTERFACE \<mapsto> None], mJavaImpl := Map.empty \<rparr>)
       = Inl (CheckFailed ''!mIsHidlReserved'')"
    using setSerialId_guard [of foo 256 "[IMPL_INTERFACE \<mapsto> None]" Map.empty
            "foo\<lparr> mIsHidlReserved := True, mSerial := 256,
                 mCppImpl := [IMPL_INTERFACE \<mapsto> None], mJavaImpl := Map.empty \<rparr>" 7]
          fill_foo
    by simp
  ultimately show ?thesis using fill_foo by simp
qed

text \<open>
  C5. The reservation ends in a fatal assertion failure exactly when the managed
  implementation map contains the stub-default-impl role, or the native
  implementation map contains both the stub role and the stub-default-impl role.
  Otherwise it returns the method, reserved, with the serial and the two maps given.
\<close>

theorem fillImplementation_checks:
  "isl (fillImplementation serial cppI javaI m) =
     (javaI IMPL_STUB_IMPL \<noteq> None \<or> (cppI IMPL_STUB_IMPL \<noteq> None \<and> cppI IMPL_STUB \<noteq> None))
   \<and> (\<not> isl (fillImplementation serial cppI javaI m) \<longrightarrow>
        fillImplementation serial cppI javaI m =
          Inr (m\<lparr> mIsHidlReserved := True, mSerial := serial,
                  mCppImpl := cppI, mJavaImpl := javaI \<rparr>))"
  by (auto simp: fillImplementation_def Let_def)

theorem fillImplementation_checks_witness:
  "isl (fillImplementation 256 Map.empty [IMPL_STUB_IMPL \<mapsto> None] foo)
   \<and> isl (fillImplementation 256 [IMPL_STUB \<mapsto> None, IMPL_STUB_IMPL \<mapsto> None] Map.empty foo)
   \<and> fillImplementation 256 [IMPL_STUB \<mapsto> None] [IMPL_INTERFACE \<mapsto> None] foo =
       Inr (foo\<lparr> mIsHidlReserved := True, mSerial := 256,
                 mCppImpl := [IMPL_STUB \<mapsto> None], mJavaImpl := [IMPL_INTERFACE \<mapsto> None] \<rparr>)"
  using fillImplementation_checks [of 256 Map.empty "[IMPL_STUB_IMPL \<mapsto> None]" foo]
        fillImplementation_checks [of 256 "[IMPL_STUB \<mapsto> None, IMPL_STUB_IMPL \<mapsto> None]"
          Map.empty foo]
        fillImplementation_checks [of 256 "[IMPL_STUB \<mapsto> None]" "[IMPL_INTERFACE \<mapsto> None]" foo]
  by simp

subsection \<open>Role dispatch of reserved methods\<close>

text \<open>
  C6. On a reserved method, the emission lookup of either backend for a role absent
  from that backend's map leaves the sink as it was and signals no error. On a method
  that is not reserved, both emission lookups and both override queries fail the
  assertion at their entry.
\<close>

theorem impl_lookup_absent_or_unreserved:
  "(mIsHidlReserved m \<and> mCppImpl m ty = None \<longrightarrow> cppImpl ty out m = Inr out)
   \<and> (mIsHidlReserved m \<and> mJavaImpl m ty = None \<longrightarrow> javaImpl ty out m = Inr out)
   \<and> (\<not> mIsHidlReserved m \<longrightarrow>
        cppImpl ty out m = Inl (CheckFailed ''mIsHidlReserved'')
        \<and> javaImpl ty out m = Inl (CheckFailed ''mIsHidlReserved'')
        \<and> overridesCppImpl ty m = Inl (CheckFailed ''mIsHidlReserved'')
        \<and> overridesJavaImpl ty m = Inl (CheckFailed ''mIsHidlReserved''))"
  by (simp add: cppImpl_def javaImpl_def overridesCppImpl_def overridesJavaImpl_def)

theorem impl_lookup_absent_or_unreserved_witness:
  "cppImpl IMPL_PROXY ''abc'' debugMethod = Inr ''abc''
   \<and> javaImpl IMPL_PROXY ''abc'' debugMethod = Inr ''abc''
   \<and> cppImpl IMPL_PROXY ''abc'' pingMethod = Inl (CheckFailed ''mIsHidlReserved'')
   \<and> javaImpl IMPL_PROXY ''abc'' pingMethod = Inl (CheckFailed ''mIsHidlReserved'')
   \<and> overridesCppImpl IMPL_PROXY pingMethod = Inl (CheckFailed ''mIsHidlReserved'')
   \<and> overridesJavaImpl IMPL_PROXY pingMethod = Inl (CheckFailed ''mIsHidlReserved'')"
  using impl_lookup_absent_or_unreserved [of debugMethod IMPL_PROXY "''abc''"]
        impl_lookup_absent_or_unreserved [of pingMethod IMPL_PROXY "''abc''"]
  by (simp add: debugMethod_def pingMethod_def newMethod_def)

text \<open>
  C10. On a reserved method, a role registered with the null routine is reported as
  an override and its emission leaves the sink as it was; a role that is not
  registered is reported as no override and its emission leaves the sink as it was
  too. This holds for both backends.
\<close>

theorem null_routine_overrides_silently:
  "(mIsHidlReserved m \<and> mCppImpl m ty = Some None \<longrightarrow>
      overridesCppImpl ty m = Inr True \<and> cppImpl ty out m = Inr out)
   \<and> (mIsHidlReserved m \<and> mJavaImpl m ty = Some None \<longrightarrow>
      overridesJavaImpl ty m = Inr True \<and> javaImpl ty out m = Inr out)
   \<and> (mIsHidlReserved m \<and> mCppImpl m ty = None \<longrightarrow>
      overridesCppImpl ty m = Inr False \<and> cppImpl ty out m = Inr out)
   \<and> (mIsHidlReserved m \<and> mJavaImpl m ty = None \<longrightarrow>
      overridesJavaImpl ty m = Inr False \<and> javaImpl ty out m = Inr out)"
  by (simp add: cppImpl_def javaImpl_def overridesCppImpl_def overridesJavaImpl_def)

theorem null_routine_overrides_silently_witness:
  "overridesCppImpl IMPL_INTERFACE debugMethod = Inr True
   \<and> cppImpl IMPL_INTERFACE ''abc'' debugMethod = Inr ''abc''
   \<and> overridesJavaImpl IMPL_INTERFACE (debugMethod\<lparr> mJavaImpl := [IMPL_INTERFACE \<mapsto> None] \<rparr>)
       = Inr True
   \<and> javaImpl IMPL_INTERFACE ''abc'' (debugMethod\<lparr> mJavaImpl := [IMPL_INTERFACE \<mapsto> None] \<rparr>)
       = Inr ''abc''
   \<and> overridesCppImpl IMPL_PROXY debugMethod = Inr False
   \<and> cppImpl IMPL_PROXY ''abc'' debugMethod = Inr ''abc''
   \<and> overridesJavaImpl IMPL_PROXY debugMethod = Inr False
   \<and> javaImpl IMPL_PROXY ''abc'' debugMethod = Inr ''abc''"
  using null_routine_overrides_silently [of debugMethod IMPL_INTERFACE "''abc''"]
        null_routine_overrides_silently
          [of "debugMethod\<lparr> mJavaImpl := [IMPL_INTERFACE \<mapsto> None] \<rparr>" IMPL_INTERFACE "''abc''"]
        null_routine_overrides_silently [of debugMethod IMPL_PROXY "''abc''"]
  by (simp add: debugMethod_def newMethod_def)

subsection \<open>Compatibility with the managed backend\<close>

text \<open>
  C9. A reserved method named exactly \<open>debug\<close> is compatible with the managed backend
  whatever its argument and result types. Every other method is compatible exactly
  when the type of every argument and of every result is.
\<close>

theorem isJavaCompatible_iff:
  "(mIsHidlReserved m \<and> mName m = ''debug'' \<longrightarrow> isJavaCompatible m)
   \<and> (\<not> (mIsHidlReserved m \<and> mName m = ''debug'') \<longrightarrow>
        isJavaCompatible m =
          ((\<forall>a \<in> set (mArgs m). typeIsJavaCompatible (type a))
           \<and> (\<forall>r \<in> set (mResults m). typeIsJavaCompatible (type r))))"
  by (auto simp: isJavaCompatible_def isHiddenFromJava_def isHidlReserved_def list_all_iff)

theorem isJavaCompatible_iff_witness:
  "isJavaCompatible debugMethod \<and> \<not> isJavaCompatible pingMethod \<and> isJavaCompatible bar
   \<and> \<not> isJavaCompatible (pingMethod\<lparr> mName := ''debug'' \<rparr>)"
  using isJavaCompatible_iff [of debugMethod] isJavaCompatible_iff [of pingMethod]
        isJavaCompatible_iff [of bar]
        isJavaCompatible_iff [of "pingMethod\<lparr> mName := ''debug'' \<rparr>"]
  by (simp add: debugMethod_def pingMethod_def bar_def newMethod_def ref_def int32_def
        unionType_def)

subsection \<open>Adding to a collection with unique names\<close>

lemma wellFormed_empty: "wellFormed emptyTypedVarVector"
  by (simp add: wellFormed_def emptyTypedVarVector_def)

lemma wellFormed_add: "wellFormed vec \<Longrightarrow> wellFormed (snd (add v vec))"
  by (auto simp: wellFormed_def add_def)

lemma wellFormed_addAll: "wellFormed vec \<Longrightarrow> wellFormed (addAll vs vec)"
  by (induction vs arbitrary: vec) (simp_all add: wellFormed_add)

lemma wellFormed_built: "wellFormed (addAll vs emptyTypedVarVector)"
  by (rule wellFormed_addAll) (rule wellFormed_empty)

text \<open>
  C8. In a collection whose name set holds exactly the names of its elements (every
  collection built from the empty one by calls of \<open>add\<close> is such), \<open>add\<close> of a
  reference whose name is already present returns false and leaves the collection as
  it was; otherwise it returns true and appends the reference, so the size grows by
  one. The collection that results is again such a collection.
\<close>

theorem add_unique_name:
  "wellFormed vec \<Longrightarrow>
     (name v \<in> name ` set (elems vec) \<longrightarrow> add v vec = (False, vec))
     \<and> (name v \<notin> name ` set (elems vec) \<longrightarrow>
          fst (add v vec) = True
          \<and> elems (snd (add v vec)) = elems vec @ [v]
          \<and> length (elems (snd (add v vec))) = length (elems vec) + 1)
     \<and> wellFormed (snd (add v vec))"
  by (auto simp: wellFormed_def add_def)

theorem add_unique_name_witness:
  "wellFormed (snd (add (ref ''a'' int32) emptyTypedVarVector))
   \<and> add (ref ''a'' hidlString) (snd (add (ref ''a'' int32) emptyTypedVarVector))
       = (False, snd (add (ref ''a'' int32) emptyTypedVarVector))
   \<and> fst (add (ref ''b'' int32) (snd (add (ref ''a'' int32) emptyTypedVarVector))) = True
   \<and> elems (snd (add (ref ''b'' int32) (snd (add (ref ''a'' int32) emptyTypedVarVector))))
       = [ref ''a'' int32, ref ''b'' int32]"
proof -
  let ?v1 = "snd (add (ref ''a'' int32) emptyTypedVarVector)"
  have wf1: "wellFormed ?v1"
    using add_unique_name [OF wellFormed_empty, of "ref ''a'' int32"] by simp
  have e1: "elems ?v1 = [ref ''a'' int32]"
    by (simp add: add_def emptyTypedVarVector_def)
  have "add (ref ''a'' hidlString) ?v1 = (False, ?v1)"
    using add_unique_name [OF wf1, of "ref ''a'' hidlString"] e1 by (simp add: ref_def)
  moreover have "fst (add (ref ''b'' int32) ?v1) = True
     \<and> elems (snd (add (ref ''b'' int32) ?v1)) = [ref ''a'' int32, ref ''b'' int32]"
    using add_unique_name [OF wf1, of "ref ''b'' int32"] e1 by (simp add: ref_def)
  ultimately show ?thesis using wf1 by simp
qed

end
